theory Spec2Isabelle
  imports Complex_Main "HOL-Library.Word" "HOL-Library.Sublist"
begin

unbundle bit_operations_syntax

section \<open>Python values used by \<^verbatim>\<open>main.py\<close>\<close>

text \<open>
  A Python \<^verbatim>\<open>str\<close> is a sequence of Unicode code points, so it is modelled as a list of
  naturals; \<open>str\<close> turns an ASCII literal into that representation. A \<^verbatim>\<open>bytes\<close>
  object is a list of 8-bit words.
\<close>

type_synonym py_str = "nat list"
type_synonym py_bytes = "8 word list"

definition str :: "string \<Rightarrow> py_str" where
  "str s = map of_char s"

definition nl :: py_str where
  "nl = [10]"

text \<open>
  The exceptions that can arise in the modelled code. \<open>is_RequestException\<close> is the
  class test of \<^verbatim>\<open>except requests.exceptions.RequestException\<close>: connection failures,
  the \<^verbatim>\<open>HTTPError\<close> of \<^verbatim>\<open>raise_for_status\<close> and the \<^verbatim>\<open>JSONDecodeError\<close> of
  \<^verbatim>\<open>response.json()\<close> (a \<^verbatim>\<open>RequestException\<close> since requests 2.27) belong to it;
  \<^verbatim>\<open>binascii.Error\<close>, \<^verbatim>\<open>UnicodeDecodeError\<close> and \<^verbatim>\<open>ValueError\<close> do not.
  \<open>is_re_error\<close> is the class test of \<^verbatim>\<open>except re.error\<close>.
\<close>

datatype exn =
    ConnectionError
  | HTTPError nat
  | JSONDecodeError
  | ValueError
  | BinasciiError
  | UnicodeDecodeError
  | ReError
  | OverflowError
  | OSError

fun is_RequestException :: "exn \<Rightarrow> bool" where
  "is_RequestException ConnectionError = True"
| "is_RequestException (HTTPError c) = True"
| "is_RequestException JSONDecodeError = True"
| "is_RequestException e = False"

fun is_re_error :: "exn \<Rightarrow> bool" where
  "is_re_error ReError = True"
| "is_re_error e = False"

text \<open>Python's \<^verbatim>\<open>xs[:n]\<close> for an integer \<open>n\<close>: a negative \<open>n\<close> counts from the end.\<close>

definition py_take :: "int \<Rightarrow> 'a list \<Rightarrow> 'a list" where
  "py_take n xs = (if 0 \<le> n then take (nat n) xs else take (nat (int (length xs) + n)) xs)"

text \<open>\<^verbatim>\<open>data.get('items', [])\<close> on a JSON object whose \<^verbatim>\<open>items\<close> key may be absent.\<close>

definition dict_get :: "'a option \<Rightarrow> 'a \<Rightarrow> 'a" where
  "dict_get v d = (case v of None \<Rightarrow> d | Some x \<Rightarrow> x)"

section \<open>The remote API\<close>

text \<open>
  The answers of the remote API are inputs of the model. A \<^verbatim>\<open>requests.get\<close> either fails
  in transport (\<open>NoReply\<close>) or yields a status code and a body; the body is \<open>None\<close> when
  it is not JSON. A JSON body is taken to follow the schema of its GitHub end point: the
  two search end points answer an object whose \<^verbatim>\<open>items\<close> key, when present, lists objects
  with the string fields the code reads; the contents end point answers an object with
  a string field \<^verbatim>\<open>content\<close>.
\<close>

datatype 'a reply = NoReply | Reply nat "'a option"

record repo_json =
  full_name :: py_str
  repo_html_url :: py_str
  stargazers_count :: int

record file_json =
  json_path :: py_str
  json_url :: py_str
  json_html_url :: py_str

datatype pval = PStr py_str | PInt int

datatype request =
  Get (req_url: py_str) (req_headers: "(py_str \<times> py_str) list")
      (req_params: "(py_str \<times> pval) list option")

type_synonym 'a response = "nat \<times> 'a option"

definition requests_get :: "'a reply \<Rightarrow> exn + 'a response" where
  "requests_get r = (case r of NoReply \<Rightarrow> Inl ConnectionError | Reply c b \<Rightarrow> Inr (c, b))"

definition raise_for_status :: "'a response \<Rightarrow> exn + unit" where
  "raise_for_status r = (if 400 \<le> fst r \<and> fst r < 600 then Inl (HTTPError (fst r)) else Inr ())"

definition json :: "'a response \<Rightarrow> exn + 'a" where
  "json r = (case snd r of None \<Rightarrow> Inl JSONDecodeError | Some d \<Rightarrow> Inr d)"

subsection \<open>What the program prints, requests and waits for\<close>

text \<open>
  Every \<^verbatim>\<open>print\<close> of the source is one constructor of \<open>message\<close>, carrying the values the
  f-string interpolates. The trace of a run lists its requests, its sleeps (in seconds)
  and its prints in program order.
\<close>

datatype message =
    ErrSearching exn
  | ErrFinding py_str exn
  | ErrContent exn
  | InvalidPattern py_str exn
  | Searching py_str
  | Scanning nat
  | ScanningRepo py_str
  | NoEnvFiles
  | FoundFiles nat
  | Checking py_str
  | FoundMatches nat
  | Saved py_str

datatype event = Request request | Sleep rat | Print message

text \<open>
  The environment of a run: the three end points (indexed by the number of events so
  far, so that the same request may be answered differently later), the iteration order
  of a Python \<^verbatim>\<open>set\<close> of strings (given by a rank), whether a file can be opened for
  writing, and the formatted local time.
\<close>

record env =
  repo_search_api :: "nat \<Rightarrow> request \<Rightarrow> repo_json list option reply"
  code_search_api :: "nat \<Rightarrow> request \<Rightarrow> file_json list option reply"
  contents_api :: "nat \<Rightarrow> request \<Rightarrow> py_str reply"
  hash_rank :: "py_str \<Rightarrow> nat"
  can_open :: "py_str \<Rightarrow> bool"
  now :: py_str

section \<open>Standard-library decoders\<close>

subsection \<open>\<^verbatim>\<open>base64.b64decode\<close>\<close>

text \<open>
  \<^verbatim>\<open>base64.b64decode(s)\<close> on a \<^verbatim>\<open>str\<close> first encodes it as ASCII (\<^verbatim>\<open>ValueError\<close> on a
  code point above 127) and then runs \<^verbatim>\<open>binascii.a2b_base64\<close> in its non-strict mode:
  characters outside the alphabet are skipped, a complete padding ends the input, and an
  incomplete final quad raises \<^verbatim>\<open>binascii.Error\<close>.
\<close>

definition b64_value :: "nat \<Rightarrow> 8 word option" where
  "b64_value c =
     (if 65 \<le> c \<and> c \<le> 90 then Some (of_nat (c - 65))
      else if 97 \<le> c \<and> c \<le> 122 then Some (of_nat (c - 71))
      else if 48 \<le> c \<and> c \<le> 57 then Some (of_nat (c + 4))
      else if c = 43 then Some 62
      else if c = 47 then Some 63
      else None)"

fun a2b_base64 :: "py_str \<Rightarrow> nat \<Rightarrow> 8 word \<Rightarrow> nat \<Rightarrow> py_bytes \<Rightarrow> exn + py_bytes" where
  "a2b_base64 [] quad_pos leftchar pads out =
     (if quad_pos \<noteq> 0 then Inl BinasciiError else Inr out)"
| "a2b_base64 (c # cs) quad_pos leftchar pads out =
     (if c = 61 then
        (if quad_pos \<ge> 2 \<and> quad_pos + (pads + 1) \<ge> 4 then Inr out
         else a2b_base64 cs quad_pos leftchar
                (if quad_pos \<ge> 2 then pads + 1 else pads) out)
      else case b64_value c of
        None \<Rightarrow> a2b_base64 cs quad_pos leftchar pads out
      | Some this_ch \<Rightarrow>
          (if quad_pos = 0 then a2b_base64 cs 1 this_ch 0 out
           else if quad_pos = 1 then
             a2b_base64 cs 2 (this_ch AND 15) 0
               (out @ [push_bit 2 leftchar OR drop_bit 4 this_ch])
           else if quad_pos = 2 then
             a2b_base64 cs 3 (this_ch AND 3) 0
               (out @ [push_bit 4 leftchar OR drop_bit 2 this_ch])
           else
             a2b_base64 cs 0 0 0 (out @ [push_bit 6 leftchar OR this_ch])))"

definition b64decode :: "py_str \<Rightarrow> exn + py_bytes" where
  "b64decode s =
     (if \<exists>c \<in> set s. c > 127 then Inl ValueError else a2b_base64 s 0 0 0 [])"

subsection \<open>\<^verbatim>\<open>bytes.decode('utf-8')\<close>\<close>

text \<open>
  The strict UTF-8 decoder: shortest forms only, no surrogates, nothing above
  U+10FFFF; any other byte sequence raises \<^verbatim>\<open>UnicodeDecodeError\<close>.
\<close>

definition is_cont :: "8 word \<Rightarrow> bool" where
  "is_cont b = (128 \<le> unat b \<and> unat b \<le> 191)"

definition cont_bits :: "8 word \<Rightarrow> nat" where
  "cont_bits b = unat b - 128"

fun decode_utf8 :: "py_bytes \<Rightarrow> exn + py_str" where
  "decode_utf8 [] = Inr []"
| "decode_utf8 (b0 # bs) =
     (let c0 = unat b0 in
      if c0 < 128 then
        (case decode_utf8 bs of Inl e \<Rightarrow> Inl e | Inr cs \<Rightarrow> Inr (c0 # cs))
      else if 194 \<le> c0 \<and> c0 \<le> 223 then
        (case bs of
           b1 # r \<Rightarrow>
             if is_cont b1 then
               (case decode_utf8 r of Inl e \<Rightarrow> Inl e
                | Inr cs \<Rightarrow> Inr (((c0 - 192) * 64 + cont_bits b1) # cs))
             else Inl UnicodeDecodeError
         | _ \<Rightarrow> Inl UnicodeDecodeError)
      else if 224 \<le> c0 \<and> c0 \<le> 239 then
        (case bs of
           b1 # b2 # r \<Rightarrow>
             if is_cont b1 \<and> is_cont b2
                \<and> (c0 = 224 \<longrightarrow> 160 \<le> unat b1) \<and> (c0 = 237 \<longrightarrow> unat b1 \<le> 159) then
               (case decode_utf8 r of Inl e \<Rightarrow> Inl e
                | Inr cs \<Rightarrow>
                    Inr (((c0 - 224) * 4096 + cont_bits b1 * 64 + cont_bits b2) # cs))
             else Inl UnicodeDecodeError
         | _ \<Rightarrow> Inl UnicodeDecodeError)
      else if 240 \<le> c0 \<and> c0 \<le> 244 then
        (case bs of
           b1 # b2 # b3 # r \<Rightarrow>
             if is_cont b1 \<and> is_cont b2 \<and> is_cont b3
                \<and> (c0 = 240 \<longrightarrow> 144 \<le> unat b1) \<and> (c0 = 244 \<longrightarrow> unat b1 \<le> 143) then
               (case decode_utf8 r of Inl e \<Rightarrow> Inl e
                | Inr cs \<Rightarrow>
                    Inr (((c0 - 240) * 262144 + cont_bits b1 * 4096
                          + cont_bits b2 * 64 + cont_bits b3) # cs))
             else Inl UnicodeDecodeError
         | _ \<Rightarrow> Inl UnicodeDecodeError)
      else Inl UnicodeDecodeError)"

section \<open>The regular-expression module, as the scraper uses it\<close>

text \<open>
  \<^verbatim>\<open>apply_regex_patterns\<close> calls \<^verbatim>\<open>re.compile\<close> and \<^verbatim>\<open>findall\<close> and nothing else of the
  module, so the scraper is modelled over any pair of such functions: \<open>compile\<close> raises
  or yields a compiled pattern, \<open>findall\<close> returns what the pattern finds in a text.
\<close>

record ('rx, 'm) re_module =
  compile :: "py_str \<Rightarrow> exn + 'rx"
  findall :: "'rx \<Rightarrow> py_str \<Rightarrow> 'm list"

section \<open>\<^verbatim>\<open>GitHubEnvScraper\<close>\<close>

record repo_info =
  name :: py_str
  repo_url :: py_str
  stars :: int

record env_file =
  path :: py_str
  url :: py_str
  html_url :: py_str

record 'm finding =
  repo :: py_str
  file_path :: py_str
  file_url :: py_str
  matches :: "(py_str \<times> 'm) list"

record 'm scraper =
  token :: "py_str option"
  headers :: "(py_str \<times> py_str) list"
  base_url :: py_str
  results :: "'m finding list"

text \<open>Truthiness of an optional string: \<^verbatim>\<open>None\<close> and \<^verbatim>\<open>''\<close> are false.\<close>

definition truthy :: "py_str option \<Rightarrow> bool" where
  "truthy t = (case t of None \<Rightarrow> False | Some s \<Rightarrow> s \<noteq> [])"

definition init :: "py_str option \<Rightarrow> 'm scraper" where
  "init tok =
     \<lparr>token = tok,
      headers = (if truthy tok then [(str ''Authorization'', str ''token '' @ the tok)] else []),
      base_url = str ''https://api.github.com'',
      results = []\<rparr>"

definition search_repos ::
  "env \<Rightarrow> 'm scraper \<Rightarrow> py_str \<Rightarrow> int \<Rightarrow> event list \<Rightarrow> (exn + repo_info list) \<times> event list" where
  "search_repos e self query max_repos tr =
     (let req = Get (base_url self @ str ''/search/repositories'') (headers self)
                  (Some [(str ''q'', PStr query), (str ''sort'', PStr (str ''stars'')),
                         (str ''order'', PStr (str ''desc'')),
                         (str ''per_page'', PInt (min max_repos 100))]);
          tr1 = tr @ [Request req];
          body =
            (case requests_get (repo_search_api e (length tr) req) of
               Inl ex \<Rightarrow> Inl ex
             | Inr response \<Rightarrow>
                 (case raise_for_status response of
                    Inl ex \<Rightarrow> Inl ex
                  | Inr _ \<Rightarrow>
                      (case json response of
                         Inl ex \<Rightarrow> Inl ex
                       | Inr data \<Rightarrow>
                           Inr (map (\<lambda>r. \<lparr>name = full_name r, repo_url = repo_html_url r,
                                           stars = stargazers_count r\<rparr>)
                                  (py_take max_repos (dict_get data []))))))
      in case body of
           Inr repos \<Rightarrow> (Inr repos, tr1)
         | Inl ex \<Rightarrow>
             if is_RequestException ex then (Inr [], tr1 @ [Print (ErrSearching ex)])
             else (Inl ex, tr1))"

definition find_env_files ::
  "env \<Rightarrow> 'm scraper \<Rightarrow> py_str \<Rightarrow> event list \<Rightarrow> (exn + env_file list) \<times> event list" where
  "find_env_files e self repo_name tr =
     (let req = Get (base_url self @ str ''/search/code'') (headers self)
                  (Some [(str ''q'', PStr (str ''filename:.env repo:'' @ repo_name)),
                         (str ''per_page'', PInt 100)]);
          tr1 = tr @ [Request req];
          body =
            (case requests_get (code_search_api e (length tr) req) of
               Inl ex \<Rightarrow> Inl ex
             | Inr response \<Rightarrow>
                 (case raise_for_status response of
                    Inl ex \<Rightarrow> Inl ex
                  | Inr _ \<Rightarrow>
                      (case json response of
                         Inl ex \<Rightarrow> Inl ex
                       | Inr data \<Rightarrow>
                           Inr (map (\<lambda>f. \<lparr>path = json_path f, url = json_url f,
                                           html_url = json_html_url f\<rparr>)
                                  (dict_get data [])))))
      in case body of
           Inr env_files \<Rightarrow> (Inr env_files, tr1)
         | Inl ex \<Rightarrow>
             if is_RequestException ex then (Inr [], tr1 @ [Print (ErrFinding repo_name ex)])
             else (Inl ex, tr1))"

definition get_file_content ::
  "env \<Rightarrow> 'm scraper \<Rightarrow> py_str \<Rightarrow> event list \<Rightarrow> (exn + py_str) \<times> event list" where
  "get_file_content e self furl tr =
     (let req = Get furl (headers self) None;
          tr1 = tr @ [Request req];
          body =
            (case requests_get (contents_api e (length tr) req) of
               Inl ex \<Rightarrow> Inl ex
             | Inr response \<Rightarrow>
                 (case raise_for_status response of
                    Inl ex \<Rightarrow> Inl ex
                  | Inr _ \<Rightarrow>
                      (case json response of
                         Inl ex \<Rightarrow> Inl ex
                       | Inr data \<Rightarrow>
                           (case b64decode data of
                              Inl ex \<Rightarrow> Inl ex
                            | Inr raw \<Rightarrow> decode_utf8 raw))))
      in case body of
           Inr content \<Rightarrow> (Inr content, tr1)
         | Inl ex \<Rightarrow>
             if is_RequestException ex then (Inr [], tr1 @ [Print (ErrContent ex)])
             else (Inl ex, tr1))"

text \<open>
  The loop of \<^verbatim>\<open>apply_regex_patterns\<close>, with the list \<^verbatim>\<open>matches\<close> as accumulator. An
  exception of \<^verbatim>\<open>re.compile\<close> that is not an \<^verbatim>\<open>re.error\<close> leaves the function.
\<close>

fun apply_loop ::
  "('rx, 'm) re_module \<Rightarrow> py_str \<Rightarrow> py_str list \<Rightarrow> (py_str \<times> 'm) list \<Rightarrow> event list
     \<Rightarrow> (exn + (py_str \<times> 'm) list) \<times> event list" where
  "apply_loop re content [] ms tr = (Inr ms, tr)"
| "apply_loop re content (pattern # ps) ms tr =
     (case compile re pattern of
        Inr regex \<Rightarrow>
          apply_loop re content ps (ms @ map (Pair pattern) (findall re regex content)) tr
      | Inl ex \<Rightarrow>
          if is_re_error ex then
            apply_loop re content ps ms (tr @ [Print (InvalidPattern pattern ex)])
          else (Inl ex, tr))"

definition apply_regex_patterns ::
  "('rx, 'm) re_module \<Rightarrow> py_str \<Rightarrow> py_str list \<Rightarrow> event list
     \<Rightarrow> (exn + (py_str \<times> 'm) list) \<times> event list" where
  "apply_regex_patterns re content patterns tr = apply_loop re content patterns [] tr"

subsection \<open>\<^verbatim>\<open>scrape\<close>\<close>

text \<open>
  One iteration of the loop over \<^verbatim>\<open>env_files\<close>: the fetch, the evaluation guarded by
  \<^verbatim>\<open>if content\<close>, the append guarded by \<^verbatim>\<open>if matches\<close>, and \<^verbatim>\<open>time.sleep(0.5)\<close>. The
  first component of the result is the exception that left the iteration, if any.
\<close>

definition check_file ::
  "env \<Rightarrow> ('rx, 'm) re_module \<Rightarrow> py_str list \<Rightarrow> py_str \<Rightarrow> env_file
     \<Rightarrow> 'm scraper \<times> event list \<Rightarrow> exn option \<times> 'm scraper \<times> event list" where
  "check_file e re patterns repo_name env_file st =
     (let self = fst st;
          tr0 = snd st @ [Print (Checking (path env_file))]
      in case get_file_content e self (url env_file) tr0 of
           (Inl ex, tr1) \<Rightarrow> (Some ex, self, tr1)
         | (Inr content, tr1) \<Rightarrow>
             if content \<noteq> [] then
               (case apply_regex_patterns re content patterns tr1 of
                  (Inl ex, tr2) \<Rightarrow> (Some ex, self, tr2)
                | (Inr ms, tr2) \<Rightarrow>
                    if ms \<noteq> [] then
                      (None,
                       self\<lparr>results := results self @
                                [\<lparr>repo = repo_name, file_path = path env_file,
                                  file_url = html_url env_file, matches = ms\<rparr>]\<rparr>,
                       tr2 @ [Print (FoundMatches (length ms)), Sleep (1/2)])
                    else (None, self, tr2 @ [Sleep (1/2)]))
             else (None, self, tr1 @ [Sleep (1/2)]))"

fun scan_files ::
  "env \<Rightarrow> ('rx, 'm) re_module \<Rightarrow> py_str list \<Rightarrow> py_str \<Rightarrow> env_file list
     \<Rightarrow> 'm scraper \<times> event list \<Rightarrow> exn option \<times> 'm scraper \<times> event list" where
  "scan_files e re patterns repo_name [] st = (None, st)"
| "scan_files e re patterns repo_name (f # fs) st =
     (case check_file e re patterns repo_name f st of
        (Some ex, st') \<Rightarrow> (Some ex, st')
      | (None, st') \<Rightarrow> scan_files e re patterns repo_name fs st')"

fun scan_repos ::
  "env \<Rightarrow> ('rx, 'm) re_module \<Rightarrow> py_str list \<Rightarrow> py_str list
     \<Rightarrow> 'm scraper \<times> event list \<Rightarrow> exn option \<times> 'm scraper \<times> event list" where
  "scan_repos e re patterns [] st = (None, st)"
| "scan_repos e re patterns (repo_name # rs) st =
     (let self = fst st;
          tr0 = snd st @ [Print (ScanningRepo repo_name)]
      in case find_env_files e self repo_name tr0 of
           (Inl ex, tr1) \<Rightarrow> (Some ex, self, tr1)
         | (Inr env_files, tr1) \<Rightarrow>
             if env_files = [] then
               scan_repos e re patterns rs (self, tr1 @ [Print NoEnvFiles])
             else
               (case scan_files e re patterns repo_name env_files
                       (self, tr1 @ [Print (FoundFiles (length env_files))]) of
                  (Some ex, st') \<Rightarrow> (Some ex, st')
                | (None, st') \<Rightarrow> scan_repos e re patterns rs st'))"

text \<open>
  The list objects of the caller and of \<^verbatim>\<open>scrape\<close> live in a store, so that
  \<^verbatim>\<open>repos.copy()\<close>, \<^verbatim>\<open>all_repos.extend(...)\<close> and the rebinding of \<^verbatim>\<open>all_repos\<close> are what
  they are in Python: an allocation, a mutation in place and another allocation.
  References are naturals; those below \<open>next_ref\<close> are allocated. The world also holds
  the trace and the files written.
\<close>

record world =
  trace :: "event list"
  heap :: "nat \<Rightarrow> py_str list"
  next_ref :: nat
  files :: "py_str \<rightharpoonup> py_str"

definition alloc :: "py_str list \<Rightarrow> world \<Rightarrow> nat \<times> world" where
  "alloc xs w = (next_ref w, w\<lparr>heap := (heap w)(next_ref w := xs), next_ref := Suc (next_ref w)\<rparr>)"

definition extend :: "nat \<Rightarrow> py_str list \<Rightarrow> world \<Rightarrow> world" where
  "extend r xs w = w\<lparr>heap := (heap w)(r := heap w r @ xs)\<rparr>"

text \<open>
  \<^verbatim>\<open>list(set(xs))\<close>: the distinct elements of \<open>xs\<close>, in the iteration order of the set,
  which Python leaves open; here it is the order of the environment's rank.
\<close>

definition set_to_list :: "(py_str \<Rightarrow> nat) \<Rightarrow> py_str list \<Rightarrow> py_str list" where
  "set_to_list rank xs = sort_key rank (remdups xs)"

text \<open>Lines 154 to 163: the copy, the search, the removal of duplicates.\<close>

definition resolve ::
  "env \<Rightarrow> 'm scraper \<Rightarrow> nat \<Rightarrow> py_str option \<Rightarrow> int \<Rightarrow> world \<Rightarrow> exn option \<times> nat \<times> world" where
  "resolve e self repos search_query max_repos w =
     (let (all_repos, w1) = alloc (heap w repos) w in
      if truthy search_query then
        (case search_repos e self (the search_query) max_repos
                (trace w1 @ [Print (Searching (the search_query))]) of
           (Inl ex, tr) \<Rightarrow> (Some ex, all_repos, w1\<lparr>trace := tr\<rparr>)
         | (Inr search_results, tr) \<Rightarrow>
             (let w2 = extend all_repos (map name search_results) (w1\<lparr>trace := tr\<rparr>);
                  (all_repos', w3) = alloc (set_to_list (hash_rank e) (heap w2 all_repos)) w2
              in (None, all_repos', w3)))
      else
        (let (all_repos', w3) = alloc (set_to_list (hash_rank e) (heap w1 all_repos)) w1
         in (None, all_repos', w3)))"

definition scrape ::
  "env \<Rightarrow> ('rx, 'm) re_module \<Rightarrow> 'm scraper \<Rightarrow> nat \<Rightarrow> py_str list \<Rightarrow> py_str option \<Rightarrow> int
     \<Rightarrow> world \<Rightarrow> exn option \<times> 'm scraper \<times> world" where
  "scrape e re self repos patterns search_query max_repos w =
     (case resolve e self repos search_query max_repos w of
        (Some ex, all_repos, w') \<Rightarrow> (Some ex, self, w')
      | (None, all_repos, w') \<Rightarrow>
          (case scan_repos e re patterns (heap w' all_repos)
                  (self, trace w' @ [Print (Scanning (length (heap w' all_repos)))]) of
             (r, self', tr) \<Rightarrow> (r, self', w'\<lparr>trace := tr\<rparr>)))"

subsection \<open>\<^verbatim>\<open>save_results\<close>\<close>

text \<open>
  Each function below lists the strings of consecutive \<^verbatim>\<open>f.write\<close> calls; the file
  holds their concatenation. \<open>fmt\<close> is the formatting of a match value inside an
  f-string (the identity on a string).
\<close>

text \<open>Python's \<^verbatim>\<open>s * n\<close> on a string.\<close>

definition py_mul :: "py_str \<Rightarrow> nat \<Rightarrow> py_str" where
  "py_mul s n = concat (replicate n s)"

definition write_header :: "env \<Rightarrow> py_str list" where
  "write_header e =
     [str ''GitHub .env File Scan Results'' @ nl,
      str ''Generated: '' @ now e @ nl,
      py_mul (str ''='') 80 @ nl @ nl]"

definition write_match :: "('m \<Rightarrow> py_str) \<Rightarrow> py_str \<times> 'm \<Rightarrow> py_str list" where
  "write_match fmt pm =
     [str ''Pattern: '' @ fst pm @ nl, str ''Match: '' @ fmt (snd pm) @ nl, nl]"

definition write_result :: "('m \<Rightarrow> py_str) \<Rightarrow> 'm finding \<Rightarrow> py_str list" where
  "write_result fmt r =
     [str ''Repository: '' @ repo r @ nl,
      str ''File: '' @ file_path r @ nl,
      str ''URL: '' @ file_url r @ nl,
      py_mul (str ''-'') 40 @ nl]
     @ concat (map (write_match fmt) (matches r))
     @ [py_mul (str ''='') 80 @ nl @ nl]"

definition save_results ::
  "env \<Rightarrow> ('m \<Rightarrow> py_str) \<Rightarrow> 'm scraper \<Rightarrow> py_str \<Rightarrow> world \<Rightarrow> exn option \<times> world" where
  "save_results e fmt self output_file w =
     (if \<not> can_open e output_file then (Some OSError, w)
      else if results self = [] then
        (None, w\<lparr>files := (files w)(output_file \<mapsto>
                   concat (write_header e @ [str ''No matches found.'' @ nl]))\<rparr>)
      else
        (None, w\<lparr>files := (files w)(output_file \<mapsto>
                   concat (write_header e @ concat (map (write_result fmt) (results self)))),
                 trace := trace w @ [Print (Saved output_file)]\<rparr>))"

section \<open>A model of the \<^verbatim>\<open>re\<close> module\<close>

text \<open>
  Concrete inputs need a concrete regular-expression engine. This one follows Python's
  \<^verbatim>\<open>re\<close> with the flags the source passes, \<^verbatim>\<open>re.MULTILINE | re.IGNORECASE\<close>, on the
  part of the pattern language the rules of \<^verbatim>\<open>main.py\<close> are written in: literals,
  \<^verbatim>\<open>.\<close>, \<^verbatim>\<open>^\<close>, \<^verbatim>\<open>$\<close>, character sets with ranges and negation, the class escapes
  \<^verbatim>\<open>\s \S \d \D \w \W\<close>, the control escapes, escaped punctuation, capturing and
  \<^verbatim>\<open>(?:...)\<close> groups, alternation, and the greedy and lazy repetitions
  \<^verbatim>\<open>* + ? {m} {m,n}\<close>. Patterns outside this part (look-around, back-references, named
  groups, inline flags, \<^verbatim>\<open>\b\<close>, numeric escapes, possessive repetition) are rejected
  with \<open>ReError\<close> although Python accepts them, so nothing is claimed about them.
  Case folding covers the ASCII letters, and \<^verbatim>\<open>\d\<close> and \<^verbatim>\<open>\w\<close> have their ASCII meaning;
  \<^verbatim>\<open>\s\<close> is the Unicode white space of \<^verbatim>\<open>str.isspace\<close>.
\<close>

subsection \<open>Compiled patterns\<close>

datatype category = Space | Digit | Word

datatype set_item = Chr nat | Rng nat nat | Cls bool category

datatype regex =
    Empty
  | Lit nat
  | Dot
  | Bol
  | Eol
  | In bool "set_item list"
  | Then regex regex
  | Or regex regex
  | Repeat nat "nat option" bool regex
  | Group nat regex

subsection \<open>Matching one character\<close>

definition lower :: "nat \<Rightarrow> nat" where
  "lower c = (if 65 \<le> c \<and> c \<le> 90 then c + 32 else c)"

definition upper :: "nat \<Rightarrow> nat" where
  "upper c = (if 97 \<le> c \<and> c \<le> 122 then c - 32 else c)"

definition is_space :: "nat \<Rightarrow> bool" where
  "is_space c = ((9 \<le> c \<and> c \<le> 13) \<or> (28 \<le> c \<and> c \<le> 32) \<or> c = 133 \<or> c = 160
     \<or> c = 5760 \<or> (8192 \<le> c \<and> c \<le> 8202) \<or> c = 8232 \<or> c = 8233 \<or> c = 8239
     \<or> c = 8287 \<or> c = 12288)"

definition is_digit :: "nat \<Rightarrow> bool" where
  "is_digit c = (48 \<le> c \<and> c \<le> 57)"

definition is_ascii_letter :: "nat \<Rightarrow> bool" where
  "is_ascii_letter c = ((65 \<le> c \<and> c \<le> 90) \<or> (97 \<le> c \<and> c \<le> 122))"

definition is_word :: "nat \<Rightarrow> bool" where
  "is_word c = (is_ascii_letter c \<or> is_digit c \<or> c = 95)"

fun in_category :: "category \<Rightarrow> nat \<Rightarrow> bool" where
  "in_category Space c = is_space c"
| "in_category Digit c = is_digit c"
| "in_category Word c = is_word c"

text \<open>
  Under \<^verbatim>\<open>IGNORECASE\<close> a set is tested on the lower-cased character \<open>lc\<close> against the
  lower-cased set: a literal matches when its lower case is \<open>lc\<close>, a range when it
  contains \<open>lc\<close> or its upper case.
\<close>

fun item_matches :: "set_item \<Rightarrow> nat \<Rightarrow> bool" where
  "item_matches (Chr x) lc = (lower x = lc)"
| "item_matches (Rng lo hi) lc = ((lo \<le> lc \<and> lc \<le> hi) \<or> (lo \<le> upper lc \<and> upper lc \<le> hi))"
| "item_matches (Cls neg k) lc = (in_category k lc \<noteq> neg)"

definition in_set :: "bool \<Rightarrow> set_item list \<Rightarrow> nat \<Rightarrow> bool" where
  "in_set neg items c = ((\<exists>it \<in> set items. item_matches it (lower c)) \<noteq> neg)"

subsection \<open>The backtracking matcher\<close>

text \<open>
  A matcher state is the position in the subject and the spans of the groups. \<open>ms r s st\<close>
  lists the states in which a match of \<open>r\<close> started in \<open>st\<close> can end, in the order in
  which the backtracking engine tries them; the head is the match Python reports.

  \<open>iter\<close> is the repetition of \<^verbatim>\<open>sre\<close>: below the minimum the body must match; above it
  another iteration is tried only while the maximum allows and the previous iteration
  moved the position (\<open>last_ptr\<close>); a greedy repetition tries the longer alternative
  first, a lazy one the shorter. The filter on the positions of the body's results is
  there for the termination proof only: \<open>ms_mono\<close> shows that it never removes anything
  when the body is a matcher.
\<close>

type_synonym caps = "(nat \<times> nat) option list"
type_synonym mstate = "nat \<times> caps"

function iter ::
  "(mstate \<Rightarrow> mstate list) \<Rightarrow> nat \<Rightarrow> nat \<Rightarrow> nat option \<Rightarrow> bool \<Rightarrow> nat \<Rightarrow> nat option
     \<Rightarrow> mstate \<Rightarrow> mstate list" where
  "iter body n lo hi greedy count last_ptr st =
     (if count < lo then
        concat (map (iter body n lo hi greedy (Suc count) (Some (fst st)))
                  (filter (\<lambda>st'. fst st \<le> fst st' \<and> fst st' \<le> n) (body st)))
      else if (case hi of None \<Rightarrow> True | Some h \<Rightarrow> count < h) \<and> last_ptr \<noteq> Some (fst st) then
        (if greedy then
           concat (map (iter body n lo hi greedy (Suc count) (Some (fst st)))
                     (filter (\<lambda>st'. fst st \<le> fst st' \<and> fst st' \<le> n) (body st))) @ [st]
         else
           st # concat (map (iter body n lo hi greedy (Suc count) (Some (fst st)))
                          (filter (\<lambda>st'. fst st \<le> fst st' \<and> fst st' \<le> n) (body st))))
      else [st])"
  by pat_completeness auto
termination
  apply (relation "inv_image (less_than <*lex*> less_than <*lex*> less_than)
           (\<lambda>(body, n, lo, hi, greedy, count, last_ptr, st).
              (n - fst st, lo - count, if last_ptr = Some (fst st) then 0 else (1::nat)))")
     apply (auto)
  done

declare iter.simps [simp del]

primrec ms :: "regex \<Rightarrow> py_str \<Rightarrow> mstate \<Rightarrow> mstate list" where
  "ms Empty s st = [st]"
| "ms (Lit c) s st =
     (if fst st < length s \<and> lower (s ! fst st) = lower c then [(Suc (fst st), snd st)] else [])"
| "ms Dot s st =
     (if fst st < length s \<and> s ! fst st \<noteq> 10 then [(Suc (fst st), snd st)] else [])"
| "ms Bol s st = (if fst st = 0 \<or> s ! (fst st - 1) = 10 then [st] else [])"
| "ms Eol s st = (if fst st \<ge> length s \<or> s ! fst st = 10 then [st] else [])"
| "ms (In neg items) s st =
     (if fst st < length s \<and> in_set neg items (s ! fst st) then [(Suc (fst st), snd st)] else [])"
| "ms (Then a b) s st = concat (map (ms b s) (ms a s st))"
| "ms (Or a b) s st = ms a s st @ ms b s st"
| "ms (Repeat lo hi greedy r) s st = iter (ms r s) (length s) lo hi greedy 0 None st"
| "ms (Group i r) s st =
     map (\<lambda>st'. (fst st', (snd st')[i - 1 := Some (fst st, fst st')])) (ms r s st)"

subsection \<open>\<^verbatim>\<open>findall\<close>\<close>

text \<open>
  \<open>finditer\<close> is the scan of \<^verbatim>\<open>findall\<close>: the leftmost match from the current
  position, then on from its end; after an empty match the next match at the same
  position must be non-empty (\<open>must_advance\<close>). \<open>match_item\<close> is what \<^verbatim>\<open>findall\<close>
  returns for a match: the whole match without groups, the text of the group with one
  group (the empty string if it took no part), the tuple of the group texts otherwise.
\<close>

primrec ngroups :: "regex \<Rightarrow> nat" where
  "ngroups Empty = 0"
| "ngroups (Lit c) = 0"
| "ngroups Dot = 0"
| "ngroups Bol = 0"
| "ngroups Eol = 0"
| "ngroups (In neg items) = 0"
| "ngroups (Then a b) = ngroups a + ngroups b"
| "ngroups (Or a b) = ngroups a + ngroups b"
| "ngroups (Repeat lo hi greedy r) = ngroups r"
| "ngroups (Group i r) = Suc (ngroups r)"

datatype found = FStr py_str | FTuple "py_str list"

definition slice :: "py_str \<Rightarrow> nat \<Rightarrow> nat \<Rightarrow> py_str" where
  "slice s a b = take (b - a) (drop a s)"

definition group_text :: "py_str \<Rightarrow> caps \<Rightarrow> nat \<Rightarrow> py_str" where
  "group_text s c i = (case c ! (i - 1) of None \<Rightarrow> [] | Some (a, b) \<Rightarrow> slice s a b)"

definition first_match :: "regex \<Rightarrow> py_str \<Rightarrow> nat \<Rightarrow> bool \<Rightarrow> mstate option" where
  "first_match r s p must_advance =
     find (\<lambda>st. \<not> must_advance \<or> fst st \<noteq> p) (ms r s (p, replicate (ngroups r) None))"

lemma iter_mono:
  "st' \<in> set (iter body n lo hi greedy count last_ptr st) \<Longrightarrow> fst st \<le> fst st'"
proof (induction body n lo hi greedy count last_ptr st arbitrary: st' rule: iter.induct)
  case (1 body n lo hi greedy count last_ptr st)
  let ?more = "filter (\<lambda>st'. fst st \<le> fst st' \<and> fst st' \<le> n) (body st)"
  let ?go = "count < lo \<or> ((case hi of None \<Rightarrow> True | Some h \<Rightarrow> count < h) \<and> last_ptr \<noteq> Some (fst st))"
  show ?case
  proof (cases ?go)
    case False
    with "1.prems" show ?thesis
      by (subst (asm) iter.simps) (auto split: if_splits)
  next
    case True
    from "1.prems" have "st' = st \<or> (\<exists>m \<in> set ?more.
        st' \<in> set (iter body n lo hi greedy (Suc count) (Some (fst st)) m))"
      by (subst (asm) iter.simps) (auto split: if_splits)
    then show ?thesis
    proof
      assume "st' = st" then show ?thesis by simp
    next
      assume "\<exists>m \<in> set ?more. st' \<in> set (iter body n lo hi greedy (Suc count) (Some (fst st)) m)"
      then obtain m where m: "m \<in> set ?more"
        and in_m: "st' \<in> set (iter body n lo hi greedy (Suc count) (Some (fst st)) m)" by blast
      have "fst m \<le> fst st'"
      proof (cases "count < lo")
        case True
        from "1.IH"(1)[OF True m in_m] show ?thesis .
      next
        case F: False
        with True have c: "(case hi of None \<Rightarrow> True | Some h \<Rightarrow> count < h) \<and> last_ptr \<noteq> Some (fst st)" by simp
        show ?thesis
        proof (cases greedy)
          case True
          from "1.IH"(2)[OF F c True m in_m] show ?thesis .
        next
          case False
          from "1.IH"(3)[OF F c False m in_m] show ?thesis .
        qed
      qed
      moreover from m have "fst st \<le> fst m" by simp
      ultimately show ?thesis by simp
    qed
  qed
qed

lemma ms_mono: "st' \<in> set (ms r s st) \<Longrightarrow> fst st \<le> fst st'"
proof (induction r arbitrary: st st')
  case (Then a b)
  from Then.prems obtain m where m: "m \<in> set (ms a s st)" and m': "st' \<in> set (ms b s m)"
    by auto
  from Then.IH(1)[OF m] Then.IH(2)[OF m'] show ?case by simp
next
  case (Repeat lo hi greedy r)
  then show ?case by (simp add: iter_mono)
qed (auto split: if_splits)

lemma first_match_mono:
  "first_match r s p must = Some st \<Longrightarrow> p \<le> fst st \<and> (must \<longrightarrow> fst st \<noteq> p)"
  unfolding first_match_def
  by (auto simp: find_Some_iff dest!: nth_mem[THEN ms_mono])

function finditer :: "regex \<Rightarrow> py_str \<Rightarrow> nat \<Rightarrow> bool \<Rightarrow> (nat \<times> mstate) list" where
  "finditer r s p must_advance =
     (if p > length s then []
      else case first_match r s p must_advance of
             None \<Rightarrow> finditer r s (Suc p) False
           | Some st \<Rightarrow> (p, st) # finditer r s (fst st) (fst st = p))"
  by pat_completeness auto
termination
proof (relation "measure (\<lambda>(r, s, p, must). 2 * (Suc (length s) - p) + (if must then 0 else 1))", goal_cases)
  case 1 show ?case by simp
next
  case (2 r s p must) then show ?case by auto
next
  case (3 r s p must st)
  from first_match_mono[OF 3(2)] 3(1) show ?case by (auto split: if_splits)
qed

declare finditer.simps [simp del]

definition match_item :: "regex \<Rightarrow> py_str \<Rightarrow> nat \<times> mstate \<Rightarrow> found" where
  "match_item r s m =
     (if ngroups r = 0 then FStr (slice s (fst m) (fst (snd m)))
      else if ngroups r = 1 then FStr (group_text s (snd (snd m)) 1)
      else FTuple (map (group_text s (snd (snd m))) [1..<Suc (ngroups r)]))"

definition re_findall :: "regex \<Rightarrow> py_str \<Rightarrow> found list" where
  "re_findall r s = map (match_item r s) (finditer r s 0 False)"

subsection \<open>\<^verbatim>\<open>re.compile\<close>\<close>

text \<open>
  The pattern is read token by token and parsed with an explicit stack of open groups.
  Errors are raised where Python's parser raises them, so that the
  \<^verbatim>\<open>OverflowError\<close> of a repetition count of \<open>MAXREPEAT\<close> or more, which is not an
  \<^verbatim>\<open>re.error\<close>, comes out exactly when Python raises it first.
\<close>

datatype token =
    TAtom regex
  | TAt regex
  | TOpen bool
  | TClose
  | TBar
  | TRep nat "nat option" bool
  | TErr exn

definition escape_category :: "nat \<Rightarrow> set_item option" where
  "escape_category c =
     (if c = 115 then Some (Cls False Space) else if c = 83 then Some (Cls True Space)
      else if c = 100 then Some (Cls False Digit) else if c = 68 then Some (Cls True Digit)
      else if c = 119 then Some (Cls False Word) else if c = 87 then Some (Cls True Word)
      else None)"

definition escape_literal :: "nat \<Rightarrow> nat option" where
  "escape_literal c =
     (if c = 97 then Some 7 else if c = 102 then Some 12 else if c = 110 then Some 10
      else if c = 114 then Some 13 else if c = 116 then Some 9 else if c = 118 then Some 11
      else if is_ascii_letter c \<or> is_digit c then None
      else Some c)"

definition class_atom :: "py_str \<Rightarrow> (set_item \<times> py_str) option" where
  "class_atom cs =
     (case cs of
        [] \<Rightarrow> None
      | c # r \<Rightarrow>
          if c = 92 then
            (case r of
               [] \<Rightarrow> None
             | d # r' \<Rightarrow>
                 (case escape_category d of
                    Some it \<Rightarrow> Some (it, r')
                  | None \<Rightarrow>
                      (case escape_literal d of
                         Some v \<Rightarrow> Some (Chr v, r')
                       | None \<Rightarrow> None)))
          else Some (Chr c, r))"

lemma class_atom_len: "class_atom cs = Some (a, r) \<Longrightarrow> length r < length cs"
  by (auto simp: class_atom_def split: list.splits if_splits option.splits)

function lex_class :: "py_str \<Rightarrow> set_item list \<Rightarrow> (set_item list \<times> py_str) option" where
  "lex_class cs items =
     (case cs of
        [] \<Rightarrow> None
      | c # r0 \<Rightarrow>
          if c = 93 \<and> items \<noteq> [] then Some (items, r0)
          else
            (case class_atom cs of
               None \<Rightarrow> None
             | Some (code1, r1) \<Rightarrow>
                 if r1 \<noteq> [] \<and> hd r1 = 45 then
                   (case tl r1 of
                      [] \<Rightarrow> None
                    | d # r3 \<Rightarrow>
                        if d = 93 then Some (items @ [code1, Chr 45], r3)
                        else
                          (case class_atom (tl r1) of
                             None \<Rightarrow> None
                           | Some (code2, r4) \<Rightarrow>
                               (case (code1, code2) of
                                  (Chr lo, Chr hi) \<Rightarrow>
                                    if hi < lo then None
                                    else lex_class r4 (items @ [Rng lo hi])
                                | _ \<Rightarrow> None)))
                 else lex_class r1 (items @ [code1])))"
  by pat_completeness auto
termination
  apply (relation "measure (\<lambda>(cs, items). length cs)")
    apply simp
   apply (auto dest!: class_atom_len)
   apply (case_tac [!] b)
     apply auto
  done

declare lex_class.simps [simp del]

lemma lex_class_len: "lex_class cs items = Some (its, r) \<Longrightarrow> length r < length cs"
proof (induction cs items arbitrary: its r rule: lex_class.induct)
  case (1 cs items)
  note eq = "1.prems"[unfolded lex_class.simps[of cs items]]
  show ?case
  proof (cases cs)
    case Nil
    with eq show ?thesis by simp
  next
    case (Cons c r0)
    show ?thesis
    proof (cases "c = 93 \<and> items \<noteq> []")
      case True
      with eq Cons show ?thesis by simp
    next
      case nc: False
      show ?thesis
      proof (cases "class_atom cs")
        case None
        with eq Cons nc show ?thesis by auto
      next
        case (Some p)
        obtain code1 r1 where p: "p = (code1, r1)" by (cases p)
        from Some p have ca: "class_atom cs = Some (code1, r1)" by simp
        from class_atom_len[OF ca] have l1: "length r1 < length cs" .
        show ?thesis
        proof (cases "r1 \<noteq> [] \<and> hd r1 = 45")
          case False
          with eq Cons nc ca have "lex_class r1 (items @ [code1]) = Some (its, r)"
            by auto
          from "1.IH"(2)[OF Cons nc Some p[symmetric] False this] l1
          show ?thesis by simp
        next
          case dash: True
          show ?thesis
          proof (cases "tl r1")
            case Nil
            with eq Cons nc ca dash show ?thesis by auto
          next
            case tl: (Cons d r3)
            show ?thesis
            proof (cases "d = 93")
              case True
              with eq Cons nc ca dash tl have "r = r3" by auto
              with tl l1 dash show ?thesis by (cases r1) auto
            next
              case nd: False
              show ?thesis
              proof (cases "class_atom (tl r1)")
                case None
                with eq Cons nc ca dash tl nd show ?thesis by auto
              next
                case s2: (Some q)
                obtain code2 r4 where q: "q = (code2, r4)" by (cases q)
                from s2 q have ca2: "class_atom (tl r1) = Some (code2, r4)" by simp
                from class_atom_len[OF ca2] have l2: "length r4 < length (tl r1)" .
                from eq Cons nc ca dash tl nd ca2 obtain lo hi where
                  c1: "code1 = Chr lo" and c2: "code2 = Chr hi" and le: "\<not> hi < lo"
                  and rec: "lex_class r4 (items @ [Rng lo hi]) = Some (its, r)"
                  by (auto split: set_item.splits if_splits)
                from "1.IH"(1)[OF Cons nc Some p[symmetric] dash tl nd s2 q[symmetric] refl c1 c2 le rec]
                have "length r < length r4" .
                with l2 l1 show ?thesis by simp
              qed
            qed
          qed
        qed
      qed
    qed
  qed
qed

definition MAXREPEAT :: nat where
  "MAXREPEAT = 4294967295"

definition dec :: "py_str \<Rightarrow> nat" where
  "dec ds = foldl (\<lambda>n d. 10 * n + (d - 48)) 0 ds"

datatype brace = BLiteral | BErr exn | BRep nat "nat option" py_str

definition lex_brace :: "py_str \<Rightarrow> brace" where
  "lex_brace cs =
     (if cs \<noteq> [] \<and> hd cs = 125 then BLiteral
      else
        (let lo = takeWhile is_digit cs;
             r1 = dropWhile is_digit cs;
             comma = (r1 \<noteq> [] \<and> hd r1 = 44);
             hi = (if comma then takeWhile is_digit (tl r1) else lo);
             r2 = (if comma then dropWhile is_digit (tl r1) else r1)
         in if r2 = [] \<or> hd r2 \<noteq> 125 then BLiteral
            else if tl r2 = [92] then BErr ReError
            else if lo \<noteq> [] \<and> dec lo \<ge> MAXREPEAT then BErr OverflowError
            else if hi \<noteq> [] \<and> dec hi \<ge> MAXREPEAT then BErr OverflowError
            else if hi \<noteq> [] \<and> dec hi < (if lo = [] then 0 else dec lo) then BErr ReError
            else BRep (if lo = [] then 0 else dec lo)
                      (if hi = [] then None else Some (dec hi)) (tl r2)))"

lemma lex_brace_len: "lex_brace cs = BRep lo hi r \<Longrightarrow> length r < length cs"
proof -
  have d: "length (dropWhile is_digit xs) \<le> length xs" for xs :: py_str
    by (rule length_dropWhile_le)
  assume a: "lex_brace cs = BRep lo hi r"
  let ?r1 = "dropWhile is_digit cs"
  let ?r2 = "if ?r1 \<noteq> [] \<and> hd ?r1 = 44 then dropWhile is_digit (tl ?r1) else ?r1"
  from a have r: "r = tl ?r2" and ne: "?r2 \<noteq> []"
    by (auto simp: lex_brace_def Let_def split: if_splits)
  have "length ?r2 \<le> length cs"
    using d[of cs] d[of "tl ?r1"] by (auto split: if_splits)
  with r ne show ?thesis by (cases ?r2) auto
qed

definition lazy_suffix :: "py_str \<Rightarrow> bool" where
  "lazy_suffix r = (r \<noteq> [] \<and> hd r = 63)"

definition skip_lazy :: "py_str \<Rightarrow> py_str" where
  "skip_lazy r = (if lazy_suffix r then tl r else r)"

lemma skip_lazy_len: "length (skip_lazy r) \<le> length r"
  by (simp add: skip_lazy_def)

definition class_body :: "py_str \<Rightarrow> py_str" where
  "class_body r = (if r \<noteq> [] \<and> hd r = 94 then tl r else r)"

lemma skip_lazy_lt: "length (skip_lazy r) < Suc (length r)"
  by (auto simp: skip_lazy_def)

lemma skip_lazy_brace: "lex_brace r = BRep lo hi r' \<Longrightarrow> length (skip_lazy r') \<le> length r"
  using lex_brace_len[of r lo hi r'] skip_lazy_len[of r'] by simp

lemma lex_class_lt: "lex_class (class_body r) [] = Some (items, r') \<Longrightarrow> length r' \<le> length r"
  using lex_class_len[of "class_body r" "[]" items r'] by (simp add: class_body_def split: if_splits)

definition next_token :: "py_str \<Rightarrow> (token \<times> py_str) option" where
  "next_token cs =
     (case cs of
        [] \<Rightarrow> None
      | c # r \<Rightarrow>
          if c = 92 then
            (case r of
               [] \<Rightarrow> Some (TErr ReError, [])
             | d # r' \<Rightarrow>
                 (case escape_category d of
                    Some it \<Rightarrow> Some (TAtom (In False [it]), r')
                  | None \<Rightarrow>
                      (case escape_literal d of
                         Some v \<Rightarrow> Some (TAtom (Lit v), r')
                       | None \<Rightarrow> Some (TErr ReError, []))))
          else if c = 91 then
            (case lex_class (class_body r) [] of
               None \<Rightarrow> Some (TErr ReError, [])
             | Some (items, r') \<Rightarrow> Some (TAtom (In (r \<noteq> [] \<and> hd r = 94) items), r'))
          else if c = 40 then
            (if r \<noteq> [] \<and> hd r = 63 then
               (if tl r \<noteq> [] \<and> hd (tl r) = 58 then Some (TOpen False, tl (tl r))
                else Some (TErr ReError, []))
             else Some (TOpen True, r))
          else if c = 41 then Some (TClose, r)
          else if c = 124 then Some (TBar, r)
          else if c = 46 then Some (TAtom Dot, r)
          else if c = 94 then Some (TAt Bol, r)
          else if c = 36 then Some (TAt Eol, r)
          else if c = 42 then Some (TRep 0 None (\<not> lazy_suffix r), skip_lazy r)
          else if c = 43 then Some (TRep 1 None (\<not> lazy_suffix r), skip_lazy r)
          else if c = 63 then Some (TRep 0 (Some 1) (\<not> lazy_suffix r), skip_lazy r)
          else if c = 123 then
            (case lex_brace r of
               BLiteral \<Rightarrow> Some (TAtom (Lit c), r)
             | BErr e \<Rightarrow> Some (TErr e, [])
             | BRep lo hi r' \<Rightarrow> Some (TRep lo hi (\<not> lazy_suffix r'), skip_lazy r'))
          else Some (TAtom (Lit c), r))"

lemma next_token_len:
  assumes a: "next_token cs = Some (t, r)"
  shows "length r < length cs"
proof (cases cs)
  case Nil
  with a show ?thesis by (simp add: next_token_def)
next
  case (Cons c r0)
  have "length r < Suc (length r0)"
    using a unfolding next_token_def Cons list.case
    by (auto split: if_splits list.splits option.splits brace.splits prod.splits
             simp: skip_lazy_len less_Suc_eq_le dest: skip_lazy_brace lex_class_lt)
  then show ?thesis using Cons by simp
qed

function lex :: "py_str \<Rightarrow> token list" where
  "lex cs = (case next_token cs of None \<Rightarrow> [] | Some (t, r) \<Rightarrow> t # lex r)"
  by pat_completeness auto
termination
  by (relation "measure length") (auto dest: next_token_len)

declare lex.simps [simp del]

datatype gkind = GTop | GCap nat | GNon
datatype ikind = KAtom | KAt | KRep

type_synonym frame = "gkind \<times> regex list \<times> (ikind \<times> regex) list"

fun mk_seq :: "regex list \<Rightarrow> regex" where
  "mk_seq [] = Empty"
| "mk_seq [r] = r"
| "mk_seq (r # rs) = Then r (mk_seq rs)"

fun mk_alt :: "regex list \<Rightarrow> regex" where
  "mk_alt [] = Empty"
| "mk_alt [r] = r"
| "mk_alt (r # rs) = Or r (mk_alt rs)"

definition close_frame :: "regex list \<Rightarrow> (ikind \<times> regex) list \<Rightarrow> regex" where
  "close_frame alts cur = mk_alt (alts @ [mk_seq (map snd cur)])"

fun parse :: "token list \<Rightarrow> frame list \<Rightarrow> nat \<Rightarrow> exn + regex" where
  "parse [] stack g =
     (case stack of
        [(GTop, alts, cur)] \<Rightarrow> Inr (close_frame alts cur)
      | _ \<Rightarrow> Inl ReError)"
| "parse (TErr e # ts) stack g = Inl e"
| "parse (TOpen cap # ts) stack g =
     (if cap then parse ts ((GCap (Suc g), [], []) # stack) (Suc g)
      else parse ts ((GNon, [], []) # stack) g)"
| "parse (TClose # ts) stack g =
     (case stack of
        (k, alts, cur) # (k', alts', cur') # rest \<Rightarrow>
          (case k of
             GTop \<Rightarrow> Inl ReError
           | GCap i \<Rightarrow>
               parse ts ((k', alts', cur' @ [(KAtom, Group i (close_frame alts cur))]) # rest) g
           | GNon \<Rightarrow>
               parse ts ((k', alts', cur' @ [(KAtom, close_frame alts cur)]) # rest) g)
      | _ \<Rightarrow> Inl ReError)"
| "parse (TBar # ts) stack g =
     (case stack of
        (k, alts, cur) # rest \<Rightarrow> parse ts ((k, alts @ [mk_seq (map snd cur)], []) # rest) g
      | [] \<Rightarrow> Inl ReError)"
| "parse (TRep lo hi greedy # ts) stack g =
     (case stack of
        (k, alts, cur) # rest \<Rightarrow>
          if cur = [] then Inl ReError
          else
            (case last cur of
               (KAtom, r) \<Rightarrow>
                 parse ts ((k, alts, butlast cur @ [(KRep, Repeat lo hi greedy r)]) # rest) g
             | _ \<Rightarrow> Inl ReError)
      | [] \<Rightarrow> Inl ReError)"
| "parse (TAtom r # ts) stack g =
     (case stack of
        (k, alts, cur) # rest \<Rightarrow> parse ts ((k, alts, cur @ [(KAtom, r)]) # rest) g
      | [] \<Rightarrow> Inl ReError)"
| "parse (TAt r # ts) stack g =
     (case stack of
        (k, alts, cur) # rest \<Rightarrow> parse ts ((k, alts, cur @ [(KAt, r)]) # rest) g
      | [] \<Rightarrow> Inl ReError)"

definition re_compile :: "py_str \<Rightarrow> exn + regex" where
  "re_compile pattern = parse (lex pattern) [(GTop, [], [])] 0"

text \<open>
  The rule of the round-trip scenario,
  \<^verbatim>\<open>(?:api[_-]?key)\s*=\s*["']?([a-zA-Z0-9_\-]+)["']?\<close>; 92, 34 and 39 are the backslash
  and the two quotes.
\<close>

definition api_key_rule :: py_str where
  "api_key_rule =
     str ''(?:api[_-]?key)'' @ [92] @ str ''s*='' @ [92] @ str ''s*['' @ [34, 39]
     @ str '']?([a-zA-Z0-9_'' @ [92] @ str ''-]+)['' @ [34, 39] @ str '']?''"

text \<open>
  The module handed to the scraper, and the formatting of a match value inside an
  f-string: a string as it is, a tuple through \<^verbatim>\<open>repr\<close> of its components. \<open>py_repr\<close>
  is exact on ASCII strings; a character above 127 is kept as it is, which Python does
  for the printable ones only.
\<close>

definition py_re :: "(regex, found) re_module" where
  "py_re = \<lparr>compile = re_compile, findall = re_findall\<rparr>"

definition hex_digit :: "nat \<Rightarrow> nat" where
  "hex_digit n = (if n < 10 then 48 + n else 87 + n)"

definition repr_char :: "nat \<Rightarrow> nat \<Rightarrow> py_str" where
  "repr_char q c =
     (if c = 92 then [92, 92]
      else if c = q then [92, q]
      else if c = 9 then [92, 116]
      else if c = 10 then [92, 110]
      else if c = 13 then [92, 114]
      else if c < 32 \<or> c = 127 then [92, 120, hex_digit (c div 16), hex_digit (c mod 16)]
      else [c])"

definition py_repr :: "py_str \<Rightarrow> py_str" where
  "py_repr s =
     (let q = (if 39 \<in> set s \<and> 34 \<notin> set s then 34 else 39)
      in [q] @ concat (map (repr_char q) s) @ [q])"

fun join :: "py_str \<Rightarrow> py_str list \<Rightarrow> py_str" where
  "join sep [] = []"
| "join sep [x] = x"
| "join sep (x # xs) = x @ sep @ join sep xs"

fun format_found :: "found \<Rightarrow> py_str" where
  "format_found (FStr s) = s"
| "format_found (FTuple ts) = str ''('' @ join (str '', '') (map py_repr ts) @ str '')''"

section \<open>Sample inputs\<close>

text \<open>A world with an empty trace, no list object and no file.\<close>

definition world0 :: world where
  "world0 = \<lparr>trace = [], heap = (\<lambda>r. []), next_ref = 0, files = Map.empty\<rparr>"

text \<open>An environment in which every request fails in transport and every file opens.\<close>

definition offline :: env where
  "offline =
     \<lparr>repo_search_api = (\<lambda>i r. NoReply), code_search_api = (\<lambda>i r. NoReply),
      contents_api = (\<lambda>i r. NoReply), hash_rank = length, can_open = (\<lambda>f. True),
      now = str ''2024-05-01 12:00:00''\<rparr>"

section \<open>The report of a run without findings\<close>

text \<open>
  C7. When the result list of the scraper is empty and the output file can be opened,
  \<^verbatim>\<open>save_results\<close> returns normally and the file holds the header (title line,
  \<^verbatim>\<open>Generated:\<close> line with the time stamp, a line of 80 \<^verbatim>\<open>=\<close> and a blank line)
  followed by the line \<^verbatim>\<open>No matches found.\<close>; nothing else of the world changes.
\<close>

theorem empty_results_report:
  assumes "results self = []" and "can_open e output_file"
  shows "save_results e fmt self output_file w =
     (None, w\<lparr>files := (files w)(output_file \<mapsto>
        str ''GitHub .env File Scan Results'' @ nl
        @ str ''Generated: '' @ now e @ nl
        @ py_mul (str ''='') 80 @ nl @ nl
        @ str ''No matches found.'' @ nl)\<rparr>)"
  using assms by (simp add: save_results_def write_header_def)

theorem empty_results_report_witness:
  "results (init None :: py_str scraper) = [] \<and> can_open offline (str ''out.txt'')
   \<and> save_results offline (\<lambda>m. m) (init None) (str ''out.txt'') world0 =
     (None, world0\<lparr>files := (files world0)(str ''out.txt'' \<mapsto>
        str ''GitHub .env File Scan Results'' @ nl
        @ str ''Generated: '' @ now offline @ nl
        @ py_mul (str ''='') 80 @ nl @ nl
        @ str ''No matches found.'' @ nl)\<rparr>)"
  using empty_results_report [of "init None :: py_str scraper" offline "str ''out.txt''" "\<lambda>m. m" world0]
  by (simp add: init_def offline_def)

end
